theory Spec2Isabelle
  imports Complex_Main
begin

section \<open>Python values, strings and exceptions\<close>

text \<open>
  The client library gmocoiner consists of the request signer \<^verbatim>\<open>GMOCoinAuth\<close>
  (auth.py) and the dispatching client \<^verbatim>\<open>GMOCoin\<close> (api.py). Python strings are
  modelled as \<open>string\<close>; a character with code 128 or above stands for a non-ASCII
  character. Exceptions are values of \<open>exn\<close>, and a function that may raise returns
  \<open>exn + 'a\<close>.
\<close>

datatype exn =
    KeyError
  | UnicodeEncodeError
  | InvalidHeader
  | HTTPError
  | AttributeError
  | TransportError string

text \<open>The values a payload can hold: \<^verbatim>\<open>None\<close>, strings, integers, lists and dicts.\<close>

datatype pyval =
    PNone
  | PStr string
  | PInt int
  | PList "pyval list"
  | PDict "(string \<times> pyval) list"

text \<open>A Python dict keeps its keys unique and in insertion order: an association list.\<close>

type_synonym payload = "(string \<times> pyval) list"

text \<open>\<^verbatim>\<open>d[k] = v\<close> on a dict: an existing key keeps its place, a new key goes last.\<close>

fun dict_set :: "'k \<Rightarrow> 'v \<Rightarrow> ('k \<times> 'v) list \<Rightarrow> ('k \<times> 'v) list" where
  "dict_set k v [] = [(k, v)]"
| "dict_set k v ((k', v') # d) =
     (if k' = k then (k, v) # d else (k', v') # dict_set k v d)"

text \<open>\<^verbatim>\<open>del d[k]\<close>: raises \<^verbatim>\<open>KeyError\<close> when the key is missing.\<close>

fun dict_del :: "'k \<Rightarrow> ('k \<times> 'v) list \<Rightarrow> exn + ('k \<times> 'v) list" where
  "dict_del k [] = Inl KeyError"
| "dict_del k ((k', v') # d) =
     (if k' = k then Inr d
      else (case dict_del k d of Inl e \<Rightarrow> Inl e | Inr d' \<Rightarrow> Inr ((k', v') # d')))"

subsection \<open>\<^verbatim>\<open>str(int(x))\<close>\<close>

definition digit_char :: "int \<Rightarrow> char" where
  "digit_char d = ''0123456789'' ! nat d"

text \<open>The decimal digits of a non-negative integer.\<close>

function str_digits :: "int \<Rightarrow> string" where
  "str_digits n =
     (if n < 10 then [digit_char n] else str_digits (n div 10) @ [digit_char (n mod 10)])"
  by pat_completeness auto
termination
  by (relation "measure nat") auto

declare str_digits.simps [simp del]

definition str_int :: "int \<Rightarrow> string" where
  "str_int i = (if i < 0 then CHR ''-'' # str_digits (- i) else str_digits i)"

text \<open>\<^verbatim>\<open>int(x)\<close> on a number truncates towards zero.\<close>

definition py_int :: "rat \<Rightarrow> int" where
  "py_int x = (if 0 \<le> x then \<lfloor>x\<rfloor> else \<lceil>x\<rceil>)"

subsection \<open>\<^verbatim>\<open>str.encode('ascii')\<close> and \<^verbatim>\<open>hexdigest()\<close>\<close>

definition is_ascii :: "char \<Rightarrow> bool" where
  "is_ascii c = (of_char c < (128 :: nat))"

definition encode_ascii :: "string \<Rightarrow> exn + string" where
  "encode_ascii s = (if list_all is_ascii s then Inr s else Inl UnicodeEncodeError)"

definition hex_digit :: "nat \<Rightarrow> char" where
  "hex_digit n = ''0123456789abcdef'' ! n"

definition hex_byte :: "char \<Rightarrow> string" where
  "hex_byte c = [hex_digit (of_char c div 16), hex_digit (of_char c mod 16)]"

text \<open>A digest is a list of bytes; \<^verbatim>\<open>hexdigest()\<close> renders each byte as two hex digits.\<close>

definition hexdigest :: "string \<Rightarrow> string" where
  "hexdigest d = concat (map hex_byte d)"

subsection \<open>Case-insensitive header dictionaries\<close>

text \<open>
  Header names compare without regard to case. \<open>lower_char\<close> is \<^verbatim>\<open>str.lower\<close> on the
  ASCII letters, which is what header names are made of.
\<close>

definition lower_char :: "char \<Rightarrow> char" where
  "lower_char c =
     (let n = (of_char c :: nat) in if 65 \<le> n \<and> n \<le> 90 then char_of (n + 32) else c)"

definition lower :: "string \<Rightarrow> string" where
  "lower s = map lower_char s"

definition upper_char :: "char \<Rightarrow> char" where
  "upper_char c =
     (let n = (of_char c :: nat) in if 97 \<le> n \<and> n \<le> 122 then char_of (n - 32) else c)"

definition upper :: "string \<Rightarrow> string" where
  "upper s = map upper_char s"

text \<open>
  The header dictionary of a request (requests' \<^verbatim>\<open>CaseInsensitiveDict\<close>): the items
  (name as last set, value) in insertion order, at most one per lower-cased name.
\<close>

type_synonym headers = "(string \<times> string) list"

fun ci_names :: "headers \<Rightarrow> string list" where
  "ci_names [] = []"
| "ci_names ((n, v) # h) = lower n # ci_names h"

definition ci_wf :: "headers \<Rightarrow> bool" where
  "ci_wf h = distinct (ci_names h)"

fun ci_set :: "string \<Rightarrow> string \<Rightarrow> headers \<Rightarrow> headers" where
  "ci_set name v [] = [(name, v)]"
| "ci_set name v ((n', v') # h) =
     (if lower n' = lower name then (name, v) # h else (n', v') # ci_set name v h)"

fun ci_get :: "string \<Rightarrow> headers \<Rightarrow> string option" where
  "ci_get name [] = None"
| "ci_get name ((n', v') # h) = (if lower n' = lower name then Some v' else ci_get name h)"

section \<open>The library the client calls\<close>

text \<open>
  What the code obtains from hashlib/hmac, json, urllib and requests is a parameter of
  the model, and so is the product of two floating-point numbers, whose rounding is not
  modelled: the raw HMAC-SHA256 digest of a message under a key, \<^verbatim>\<open>json.dumps\<close>,
  the URL that requests prepares from a URL and query parameters, the \<^verbatim>\<open>path_url\<close>
  of a prepared URL, the path component found by \<^verbatim>\<open>urllib.parse.urlparse\<close>, the header
  validity check of \<^verbatim>\<open>prepare_headers\<close>, and the session's default headers.
\<close>

record lib =
  float_mul :: "rat \<Rightarrow> rat \<Rightarrow> rat"
  hmac_sha256 :: "string \<Rightarrow> string \<Rightarrow> string"
  json_dumps :: "pyval \<Rightarrow> string"
  prepare_url :: "string \<Rightarrow> payload option \<Rightarrow> string"
  path_url :: "string \<Rightarrow> string"
  urlparse_path :: "string \<Rightarrow> string"
  check_header_validity :: "string \<times> string \<Rightarrow> bool"
  default_headers :: headers

text \<open>
  \<^verbatim>\<open>PreparedRequest.prepare_headers(headers)\<close>: starts from an empty dictionary and
  sets each item in turn, raising \<^verbatim>\<open>InvalidHeader\<close> at the first invalid one.
\<close>

fun prepare_headers_loop :: "lib \<Rightarrow> (string \<times> string) list \<Rightarrow> headers \<Rightarrow> exn + headers" where
  "prepare_headers_loop L [] acc = Inr acc"
| "prepare_headers_loop L ((n, v) # items) acc =
     (if check_header_validity L (n, v) then prepare_headers_loop L items (ci_set n v acc)
      else Inl InvalidHeader)"

definition prepare_headers :: "lib \<Rightarrow> (string \<times> string) list \<Rightarrow> exn + headers" where
  "prepare_headers L items = prepare_headers_loop L items []"

section \<open>auth.py: the request signer\<close>

record prepared_request =
  p_method :: string
  p_url :: string
  p_headers :: headers
  p_body :: "string option"

record GMOCoinAuth =
  api_key :: string
  secret :: string

text \<open>\<^verbatim>\<open>re.sub(r'\A/(public|private)', '', o)\<close>: the pattern can only match at position 0.\<close>

definition canonical_path :: "string \<Rightarrow> string" where
  "canonical_path p =
     (if take 7 p = ''/public'' then drop 7 p
      else if take 8 p = ''/private'' then drop 8 p
      else p)"

text \<open>\<^verbatim>\<open>r.body or ''\<close>\<close>

definition body_or_empty :: "string option \<Rightarrow> string" where
  "body_or_empty b = (case b of None \<Rightarrow> [] | Some s \<Rightarrow> s)"

text \<open>\<^verbatim>\<open>str(int(time.time() * 1000))\<close>, the product being the floating-point one.\<close>

definition timestamp_of :: "lib \<Rightarrow> rat \<Rightarrow> string" where
  "timestamp_of L now = str_int (py_int (float_mul L now 1000))"

definition sign_text :: "lib \<Rightarrow> rat \<Rightarrow> prepared_request \<Rightarrow> string" where
  "sign_text L now r =
     (let timestamp = timestamp_of L now;
          pth = urlparse_path L (path_url L (p_url r));
          p = canonical_path pth
      in timestamp @ p_method r @ p @ body_or_empty (p_body r))"

text \<open>
  \<^verbatim>\<open>GMOCoinAuth.__call__(self, r)\<close>; \<open>now\<close> is what \<^verbatim>\<open>time.time()\<close> returns. Encoding the
  secret or the text raises on a non-ASCII character, \<^verbatim>\<open>prepare_headers\<close> on an
  invalid header.
\<close>

definition GMOCoinAuth_call :: "lib \<Rightarrow> GMOCoinAuth \<Rightarrow> rat \<Rightarrow> prepared_request \<Rightarrow> exn + prepared_request" where
  "GMOCoinAuth_call L a now r =
     (let timestamp = timestamp_of L now;
          text = sign_text L now r
      in case encode_ascii (secret a) of
           Inl e \<Rightarrow> Inl e
         | Inr key \<Rightarrow>
             (case encode_ascii text of
                Inl e \<Rightarrow> Inl e
              | Inr msg \<Rightarrow>
                  (let sign = hexdigest (hmac_sha256 L key msg);
                       headers = p_headers r;
                       headers = dict_set ''API-KEY'' (api_key a) headers;
                       headers = dict_set ''API-TIMESTAMP'' timestamp headers;
                       headers = dict_set ''API-SIGN'' sign headers
                   in case prepare_headers L headers of
                        Inl e \<Rightarrow> Inl e
                      | Inr h \<Rightarrow> Inr (r\<lparr>p_headers := h\<rparr>))))"

section \<open>api.py: the client\<close>

subsection \<open>Time, the transport and the log\<close>

text \<open>
  The dispatch reads the clock, sleeps, sends and logs. The world holds the clock
  (\<^verbatim>\<open>time.time()\<close>, in seconds, as an exact rational: the rounding of floating point
  is not modelled) and the trace of what the call did. The environment of one call says
  what the transport answers to a prepared request (an exception or a response), how
  long the send takes, and by how much \<^verbatim>\<open>time.sleep\<close> oversleeps.
\<close>

record response =
  status_code :: int
  resp_text :: string

datatype event =
    LogDebug string
  | LogError exn
  | Sleep rat
  | Send prepared_request rat

record world =
  clock :: rat
  trace :: "event list"

record env =
  send :: "prepared_request \<Rightarrow> exn + response"
  latency :: rat
  oversleep :: rat

definition log_debug :: "string \<Rightarrow> world \<Rightarrow> world" where
  "log_debug msg w = w\<lparr>trace := trace w @ [LogDebug msg]\<rparr>"

definition log_error :: "exn \<Rightarrow> world \<Rightarrow> world" where
  "log_error e w = w\<lparr>trace := trace w @ [LogError e]\<rparr>"

text \<open>\<^verbatim>\<open>time.sleep(d)\<close> returns after at least \<open>d\<close> seconds.\<close>

definition time_sleep :: "env \<Rightarrow> rat \<Rightarrow> world \<Rightarrow> world" where
  "time_sleep E d w = w\<lparr>clock := clock w + d + oversleep E, trace := trace w @ [Sleep d]\<rparr>"

text \<open>\<^verbatim>\<open>Session.send(prepped)\<close>: the event records the time at which the send starts.\<close>

definition session_send :: "env \<Rightarrow> prepared_request \<Rightarrow> world \<Rightarrow> (exn + response) \<times> world" where
  "session_send E p w =
     (send E p, w\<lparr>clock := clock w + latency E, trace := trace w @ [Send p (clock w)]\<rparr>)"

subsection \<open>The client object and its session\<close>

record GMOCoin =
  s_headers :: headers
  s_auth :: "GMOCoinAuth option"
  gmo_auth :: GMOCoinAuth
  late_limit :: bool
  last_req_time :: rat

definition endpoint_public :: string where
  "endpoint_public = ''https://api.coin.z.com/public''"

definition endpoint_private :: string where
  "endpoint_private = ''https://api.coin.z.com/private''"

text \<open>\<^verbatim>\<open>GMOCoin.__init__\<close>\<close>

definition GMOCoin_init :: "lib \<Rightarrow> string \<Rightarrow> string \<Rightarrow> bool \<Rightarrow> GMOCoin" where
  "GMOCoin_init L key sec limit =
     \<lparr>s_headers = ci_set ''Content-Type'' ''application/json'' (default_headers L),
      s_auth = None,
      gmo_auth = \<lparr>api_key = key, secret = sec\<rparr>,
      late_limit = limit,
      last_req_time = 0\<rparr>"

text \<open>\<^verbatim>\<open>requests.Request(method, url, data=body, params=query)\<close>\<close>

record request =
  r_method :: string
  r_url :: string
  r_data :: "string option"
  r_params :: "payload option"

text \<open>
  \<^verbatim>\<open>Session.prepare_request(req)\<close>, as far as the client uses it: the method in upper
  case, the URL with the query parameters, the session's headers, the data as the body,
  and then the session's authentication hook, when there is one, applied to the prepared
  request. Headers that requests derives from the body or from cookies are left out.
\<close>

definition prepare_request :: "lib \<Rightarrow> GMOCoin \<Rightarrow> rat \<Rightarrow> request \<Rightarrow> exn + prepared_request" where
  "prepare_request L c now req =
     (case prepare_headers L (s_headers c) of
        Inl e \<Rightarrow> Inl e
      | Inr h \<Rightarrow>
          (let p = \<lparr>p_method = upper (r_method req),
                    p_url = prepare_url L (r_url req) (r_params req),
                    p_headers = h,
                    p_body = r_data req\<rparr>
           in case s_auth c of
                None \<Rightarrow> Inr p
              | Some a \<Rightarrow> GMOCoinAuth_call L a now p))"

subsection \<open>\<^verbatim>\<open>GMOCoin._request\<close>\<close>

text \<open>
  The loop \<^verbatim>\<open>for k, v in list(payload.items()): if v is None: del payload[k]\<close> runs
  over a snapshot of the items and deletes from the payload itself.
\<close>

fun strip_loop :: "payload \<Rightarrow> payload \<Rightarrow> exn + payload" where
  "strip_loop [] payload = Inr payload"
| "strip_loop ((k, v) # items) payload =
     (if v = PNone
      then (case dict_del k payload of
              Inl e \<Rightarrow> Inl e
            | Inr payload' \<Rightarrow> strip_loop items payload')
      else strip_loop items payload)"

definition strip_none :: "payload \<Rightarrow> exn + payload" where
  "strip_none payload = strip_loop payload payload"

definition sending_msg :: "prepared_request \<Rightarrow> string" where
  "sending_msg p =
     ''sending req to '' @ p_url p @ '': '' @ (case p_body p of None \<Rightarrow> ''None'' | Some b \<Rightarrow> b)"

definition response_msg :: "response \<Rightarrow> string" where
  "response_msg resp = ''<Response ['' @ str_int (status_code resp) @ '']> '' @ resp_text resp"

text \<open>\<^verbatim>\<open>Response.raise_for_status()\<close> raises \<^verbatim>\<open>HTTPError\<close> on a 4xx or 5xx status.\<close>

definition raise_for_status :: "response \<Rightarrow> exn + unit" where
  "raise_for_status resp =
     (if 400 \<le> status_code resp \<and> status_code resp < 600 then Inl HTTPError else Inr ())"

text \<open>
  \<^verbatim>\<open>_request(self, method, path, payload, auth)\<close>, from the client and the world before
  the call to the result (the response returned or the exception raised), the client and
  the world after it.
\<close>

definition GMOCoin_request ::
  "lib \<Rightarrow> env \<Rightarrow> string \<Rightarrow> string \<Rightarrow> payload \<Rightarrow> bool \<Rightarrow> GMOCoin \<times> world
   \<Rightarrow> (exn + response) \<times> GMOCoin \<times> world" where
  "GMOCoin_request L E method path payload auth cw =
     (let (c, w) = cw in
      case strip_none payload of
        Inl e \<Rightarrow> (Inl e, c, w)
      | Inr payload \<Rightarrow>
          (let (body, query) =
                 (if method = ''GET'' then (None, Some payload)
                  else (Some (json_dumps L (PDict payload)), None));
               (endpoint, c) =
                 (if \<not> auth then (endpoint_public, c\<lparr>s_auth := None\<rparr>)
                  else (endpoint_private, c\<lparr>s_auth := Some (gmo_auth c)\<rparr>));
               req = \<lparr>r_method = method, r_url = endpoint @ path,
                      r_data = body, r_params = query\<rparr>
           in case prepare_request L c (clock w) req of
                Inl e \<Rightarrow> (Inl e, c, w)
              | Inr prepped \<Rightarrow>
                  (let w = log_debug (sending_msg prepped) w;
                       w = (if late_limit c
                            then (let now = clock w
                                  in if last_req_time c + 1 > now
                                     then time_sleep E (last_req_time c + 1 - now) w
                                     else w)
                            else w);
                       (sent, w) = session_send E prepped w
                   in case sent of
                        Inl e \<Rightarrow>
                          (if e = HTTPError
                           then (let w = log_error e w;
                                     c = (if late_limit c then c\<lparr>last_req_time := clock w\<rparr> else c)
                                 in (Inl AttributeError, c, w))
                           else (Inl e, c, w))
                      | Inr resp \<Rightarrow>
                          (let w = (case raise_for_status resp of
                                      Inl e \<Rightarrow> log_error e w
                                    | Inr _ \<Rightarrow> w);
                               c = (if late_limit c then c\<lparr>last_req_time := clock w\<rparr> else c);
                               w = log_debug (response_msg resp) w
                           in (Inr resp, c, w)))))"

subsection \<open>Endpoint methods\<close>

definition trades_payload :: "pyval \<Rightarrow> pyval \<Rightarrow> pyval \<Rightarrow> payload" where
  "trades_payload symbol page count =
     [(''symbol'', symbol), (''page'', page), (''count'', count)]"

definition trades ::
  "lib \<Rightarrow> env \<Rightarrow> pyval \<Rightarrow> pyval \<Rightarrow> pyval \<Rightarrow> GMOCoin \<times> world
   \<Rightarrow> (exn + response) \<times> GMOCoin \<times> world" where
  "trades L E symbol page count cw =
     GMOCoin_request L E ''GET'' ''/v1/trades'' (trades_payload symbol page count) False cw"

definition account_assets ::
  "lib \<Rightarrow> env \<Rightarrow> GMOCoin \<times> world \<Rightarrow> (exn + response) \<times> GMOCoin \<times> world" where
  "account_assets L E cw = GMOCoin_request L E ''GET'' ''/v1/account/assets'' [] True cw"

definition closeorder_payload ::
  "pyval \<Rightarrow> pyval \<Rightarrow> pyval \<Rightarrow> pyval \<Rightarrow> pyval \<Rightarrow> pyval \<Rightarrow> payload" where
  "closeorder_payload symbol side executionType settlePosition_positionId
       settlePosition_size price =
     [(''symbol'', symbol),
      (''side'', side),
      (''executionType'', executionType),
      (''price'', price),
      (''settlePosition'',
         PList [PDict [(''positionId'', settlePosition_positionId),
                       (''size'', settlePosition_size)]])]"

definition closeorder ::
  "lib \<Rightarrow> env \<Rightarrow> pyval \<Rightarrow> pyval \<Rightarrow> pyval \<Rightarrow> pyval \<Rightarrow> pyval \<Rightarrow> pyval \<Rightarrow> GMOCoin \<times> world
   \<Rightarrow> (exn + response) \<times> GMOCoin \<times> world" where
  "closeorder L E symbol side executionType settlePosition_positionId
       settlePosition_size price cw =
     GMOCoin_request L E ''POST'' ''/v1/closeOrder''
       (closeorder_payload symbol side executionType settlePosition_positionId
          settlePosition_size price) True cw"

section \<open>Observations on a call\<close>

text \<open>What a call appended to the trace.\<close>

definition new_events :: "world \<Rightarrow> world \<Rightarrow> event list" where
  "new_events w w' = drop (length (trace w)) (trace w')"



text \<open>The requests sent among some events, in order.\<close>

fun sent_requests :: "event list \<Rightarrow> prepared_request list" where
  "sent_requests [] = []"
| "sent_requests (Send p t # evs) = p # sent_requests evs"
| "sent_requests (Sleep d # evs) = sent_requests evs"
| "sent_requests (LogDebug m # evs) = sent_requests evs"
| "sent_requests (LogError e # evs) = sent_requests evs"

text \<open>A header dictionary that holds none of the three authentication headers.\<close>

definition no_api_headers :: "headers \<Rightarrow> bool" where
  "no_api_headers h =
     (ci_get ''API-KEY'' h = None \<and> ci_get ''API-TIMESTAMP'' h = None \<and>
      ci_get ''API-SIGN'' h = None)"

text \<open>
  Whether a value holds, at any depth, a dict key whose value is \<^verbatim>\<open>None\<close>.
\<close>

fun has_none_key :: "pyval \<Rightarrow> bool" where
  "has_none_key (PDict kvs) = list_ex (\<lambda>kv. snd kv = PNone \<or> has_none_key (snd kv)) kvs"
| "has_none_key (PList vs) = list_ex has_none_key vs"
| "has_none_key v = False"

subsection \<open>The canonical path in the specification's words\<close>

text \<open>
  A path has the leading segment \<open>seg\<close> when it is \<open>seg\<close> or goes on with a slash after
  it; the specification strips a leading \<^verbatim>\<open>/public\<close> or \<^verbatim>\<open>/private\<close> segment and
  leaves every other path as it is.
\<close>

definition leading_segment :: "string \<Rightarrow> string \<Rightarrow> bool" where
  "leading_segment seg p = (p = seg \<or> take (length seg + 1) p = seg @ ''/'')"

definition spec_canonical_path :: "string \<Rightarrow> string" where
  "spec_canonical_path p =
     (if leading_segment ''/public'' p then drop 7 p
      else if leading_segment ''/private'' p then drop 8 p
      else p)"

subsection \<open>A library instance for concrete evaluation\<close>

text \<open>
  \<^verbatim>\<open>json.dumps\<close> with its default separators and \<^verbatim>\<open>ensure_ascii\<close>, on the values of
  \<open>pyval\<close>.
\<close>

definition json_escape :: "char \<Rightarrow> string" where
  "json_escape c =
     (let n = (of_char c :: nat) in
      if n = 34 then [CHR 0x5C, CHR 0x22]
      else if n = 92 then [CHR 0x5C, CHR 0x5C]
      else if n = 10 then [CHR 0x5C, CHR ''n'']
      else if n = 13 then [CHR 0x5C, CHR ''r'']
      else if n = 9 then [CHR 0x5C, CHR ''t'']
      else if n = 8 then [CHR 0x5C, CHR ''b'']
      else if n = 12 then [CHR 0x5C, CHR ''f'']
      else if 32 \<le> n \<and> n \<le> 126 then [c]
      else [CHR 0x5C, CHR ''u'', CHR ''0'', CHR ''0''] @ hex_byte c)"

definition json_string :: "string \<Rightarrow> string" where
  "json_string s = [CHR 0x22] @ concat (map json_escape s) @ [CHR 0x22]"

fun join_with :: "string \<Rightarrow> string list \<Rightarrow> string" where
  "join_with sep [] = []"
| "join_with sep [x] = x"
| "join_with sep (x # y # ys) = x @ sep @ join_with sep (y # ys)"

fun py_json_dumps :: "pyval \<Rightarrow> string" where
  "py_json_dumps PNone = ''null''"
| "py_json_dumps (PStr s) = json_string s"
| "py_json_dumps (PInt i) = str_int i"
| "py_json_dumps (PList vs) = ''['' @ join_with '', '' (map py_json_dumps vs) @ '']''"
| "py_json_dumps (PDict kvs) =
     ''{'' @ join_with '', '' (map (\<lambda>kv. json_string (fst kv) @ '': '' @ py_json_dumps (snd kv)) kvs)
       @ ''}''"

text \<open>
  The other functions of the instance are simple stand-ins (the digest is not
  HMAC-SHA256, the product is the exact one, which is also the floating-point product at
  the times used below): they serve only to run the model on concrete requests, and the
  general theorems hold for every library.
\<close>

fun example_param :: "string \<times> pyval \<Rightarrow> string" where
  "example_param (k, PStr s) = k @ ''='' @ s"
| "example_param (k, PInt i) = k @ ''='' @ str_int i"
| "example_param (k, v) = k @ ''=''"

definition example_prepare_url :: "string \<Rightarrow> payload option \<Rightarrow> string" where
  "example_prepare_url u params =
     (case params of
        None \<Rightarrow> u
      | Some kvs \<Rightarrow> if kvs = [] then u else u @ ''?'' @ join_with ''&'' (map example_param kvs))"

definition example_lib :: lib where
  "example_lib =
     \<lparr>float_mul = (\<lambda>x y. x * y),
      hmac_sha256 = (\<lambda>key msg. take 2 key @ take 2 msg),
      json_dumps = py_json_dumps,
      prepare_url = example_prepare_url,
      path_url = drop 22,
      urlparse_path = takeWhile (\<lambda>c. c \<noteq> CHR ''?''),
      check_header_validity = (\<lambda>nv. list_all (\<lambda>c. c \<noteq> CHR 0x0A) (snd nv)),
      default_headers = [(''Accept'', ''*/*'')]\<rparr>"

definition example_env :: "int \<Rightarrow> env" where
  "example_env status =
     \<lparr>send = (\<lambda>p. Inr \<lparr>status_code = status, resp_text = ''{}''\<rparr>),
      latency = 1 / 4,
      oversleep = 0\<rparr>"

definition failing_env :: env where
  "failing_env =
     \<lparr>send = (\<lambda>p. Inl (TransportError ''connection refused'')),
      latency = 1 / 4,
      oversleep = 0\<rparr>"

definition example_world :: world where
  "example_world = \<lparr>clock = 1700000000, trace = []\<rparr>"

definition example_auth :: GMOCoinAuth where
  "example_auth = \<lparr>api_key = ''KEY'', secret = ''SECRET''\<rparr>"

definition example_prepared :: "headers \<Rightarrow> prepared_request" where
  "example_prepared h =
     \<lparr>p_method = ''POST'', p_url = ''https://api.coin.z.com/private/v1/order'',
      p_headers = h, p_body = Some ''{}''\<rparr>"

text \<open>A client, the requests it prepares, and some calls.\<close>

definition example_client :: GMOCoin where
  "example_client = GMOCoin_init example_lib ''KEY'' ''SECRET'' True"

definition ok_response :: response where
  "ok_response = \<lparr>status_code = 200, resp_text = ''{}''\<rparr>"

definition bad_response :: response where
  "bad_response = \<lparr>status_code = 400, resp_text = ''{}''\<rparr>"

definition trades_prepared :: prepared_request where
  "trades_prepared =
     \<lparr>p_method = ''GET'',
      p_url = ''https://api.coin.z.com/public/v1/trades?symbol=BTC_JPY'',
      p_headers = [(''Accept'', ''*/*''), (''Content-Type'', ''application/json'')],
      p_body = None\<rparr>"

definition first_public :: "(exn + response) \<times> GMOCoin \<times> world" where
  "first_public =
     GMOCoin_request example_lib (example_env 200) ''GET'' ''/v1/trades''
       (trades_payload (PStr ''BTC_JPY'') PNone PNone) False (example_client, example_world)"

definition second_public :: "(exn + response) \<times> GMOCoin \<times> world" where
  "second_public =
     GMOCoin_request example_lib (example_env 400) ''GET'' ''/v1/trades''
       (trades_payload (PStr ''BTC_JPY'') PNone PNone) False (snd first_public)"

definition failed_public :: "(exn + response) \<times> GMOCoin \<times> world" where
  "failed_public =
     GMOCoin_request example_lib failing_env ''GET'' ''/v1/trades''
       (trades_payload (PStr ''BTC_JPY'') PNone PNone) False (example_client, example_world)"

text \<open>A \<^verbatim>\<open>closeorder\<close> call whose \<^verbatim>\<open>settlePosition_size\<close> is \<^verbatim>\<open>None\<close>.\<close>

definition null_size_payload :: payload where
  "null_size_payload =
     closeorder_payload (PStr ''BTC_JPY'') (PStr ''BUY'') (PStr ''MARKET'') (PInt 123) PNone PNone"

definition null_size_stripped :: payload where
  "null_size_stripped =
     [(''symbol'', PStr ''BTC_JPY''), (''side'', PStr ''BUY''),
      (''executionType'', PStr ''MARKET''),
      (''settlePosition'', PList [PDict [(''positionId'', PInt 123), (''size'', PNone)]])]"

definition closeorder_prepared :: prepared_request where
  "closeorder_prepared =
     \<lparr>p_method = ''POST'',
      p_url = ''https://api.coin.z.com/private/v1/closeOrder'',
      p_headers =
        [(''Accept'', ''*/*''), (''Content-Type'', ''application/json''),
         (''API-KEY'', ''KEY''), (''API-TIMESTAMP'', ''1700000000000''),
         (''API-SIGN'', ''53453137'')],
      p_body = Some (json_dumps example_lib (PDict null_size_stripped))\<rparr>"

definition null_size_order :: "(exn + response) \<times> GMOCoin \<times> world" where
  "null_size_order =
     closeorder example_lib (example_env 200) (PStr ''BTC_JPY'') (PStr ''BUY'') (PStr ''MARKET'')
       (PInt 123) PNone PNone (example_client, example_world)"

definition private_done_client :: GMOCoin where
  "private_done_client =
     example_client\<lparr>s_auth := Some example_auth, last_req_time := 6800000001 / 4\<rparr>"

definition private_done_world :: world where
  "private_done_world =
     \<lparr>clock = 6800000001 / 4,
      trace = [LogDebug (sending_msg closeorder_prepared), Send closeorder_prepared 1700000000,
               LogDebug (response_msg ok_response)]\<rparr>"

definition public_after_private :: "(exn + response) \<times> GMOCoin \<times> world" where
  "public_after_private =
     GMOCoin_request example_lib (example_env 200) ''GET'' ''/v1/trades''
       (trades_payload (PStr ''BTC_JPY'') PNone PNone) False
       (private_done_client, private_done_world)"

text \<open>A call of \<^verbatim>\<open>_request\<close> with the method written in lower case.\<close>

definition lower_get_prepared :: prepared_request where
  "lower_get_prepared =
     \<lparr>p_method = ''GET'',
      p_url = ''https://api.coin.z.com/public/v1/trades'',
      p_headers = [(''Accept'', ''*/*''), (''Content-Type'', ''application/json'')],
      p_body = Some (json_dumps example_lib (PDict [(''symbol'', PStr ''BTC_JPY'')]))\<rparr>"

definition lower_get_call :: "(exn + response) \<times> GMOCoin \<times> world" where
  "lower_get_call =
     GMOCoin_request example_lib (example_env 200) ''get'' ''/v1/trades''
       (trades_payload (PStr ''BTC_JPY'') PNone PNone) False (example_client, example_world)"

subsection \<open>Auxiliary notions for the proofs\<close>

text \<open>The items that the signer hands to \<^verbatim>\<open>prepare_headers\<close>.\<close>

definition signed_items :: "string \<Rightarrow> string \<Rightarrow> string \<Rightarrow> headers \<Rightarrow> headers" where
  "signed_items key ts sign h =
     dict_set ''API-SIGN'' sign (dict_set ''API-TIMESTAMP'' ts (dict_set ''API-KEY'' key h))"

text \<open>How many items carry a name, up to case.\<close>

definition ci_count :: "string \<Rightarrow> headers \<Rightarrow> nat" where
  "ci_count n h = count_list (ci_names h) (lower n)"

text \<open>
  The stages of \<open>GMOCoin_request\<close>: the client after the choice of the authentication
  hook, the request built from the stripped payload, the wait of the rate limit, the time
  at which the send starts, and the client after the send.
\<close>

definition endpoint_for :: "bool \<Rightarrow> string" where
  "endpoint_for auth = (if auth then endpoint_private else endpoint_public)"

definition auth_client :: "bool \<Rightarrow> GMOCoin \<Rightarrow> GMOCoin" where
  "auth_client auth c = (if auth then c\<lparr>s_auth := Some (gmo_auth c)\<rparr> else c\<lparr>s_auth := None\<rparr>)"

definition built :: "lib \<Rightarrow> string \<Rightarrow> string \<Rightarrow> payload \<Rightarrow> bool \<Rightarrow> request" where
  "built L method path pl auth =
     \<lparr>r_method = method, r_url = endpoint_for auth @ path,
      r_data = (if method = ''GET'' then None else Some (json_dumps L (PDict pl))),
      r_params = (if method = ''GET'' then Some pl else None)\<rparr>"

definition must_wait :: "GMOCoin \<Rightarrow> world \<Rightarrow> bool" where
  "must_wait c w = (late_limit c \<and> last_req_time c + 1 > clock w)"

definition wait_events :: "GMOCoin \<Rightarrow> world \<Rightarrow> event list" where
  "wait_events c w = (if must_wait c w then [Sleep (last_req_time c + 1 - clock w)] else [])"

definition send_start :: "env \<Rightarrow> GMOCoin \<Rightarrow> world \<Rightarrow> rat" where
  "send_start E c w =
     (if must_wait c w then clock w + (last_req_time c + 1 - clock w) + oversleep E
      else clock w)"

definition stamp :: "rat \<Rightarrow> GMOCoin \<Rightarrow> GMOCoin" where
  "stamp t c = (if late_limit c then c\<lparr>last_req_time := t\<rparr> else c)"

definition error_events :: "response \<Rightarrow> event list" where
  "error_events resp =
     (if 400 \<le> status_code resp \<and> status_code resp < 600 then [LogError HTTPError] else [])"

section \<open>Header dictionaries\<close>

lemma ci_get_append:
  "ci_get n (xs @ ys) = (case ci_get n xs of Some v \<Rightarrow> Some v | None \<Rightarrow> ci_get n ys)"
  by (induction xs) auto

lemma ci_get_ci_set:
  "ci_get n (ci_set m v h) = (if lower m = lower n then Some v else ci_get n h)"
  by (induction h) auto

lemma ci_names_append: "ci_names (xs @ ys) = ci_names xs @ ci_names ys"
  by (induction xs) auto

lemma ci_names_rev: "ci_names (rev h) = rev (ci_names h)"
  by (induction h) (auto simp: ci_names_append)

lemma ci_get_None_iff: "ci_get n h = None \<longleftrightarrow> lower n \<notin> set (ci_names h)"
  by (induction h) (auto split: if_splits)

lemma ci_get_rev_None: "ci_get n (rev h) = None \<longleftrightarrow> ci_get n h = None"
  by (simp add: ci_get_None_iff ci_names_rev)

lemma prepare_headers_loop_get:
  "prepare_headers_loop L items acc = Inr h \<Longrightarrow>
   ci_get n h = (case ci_get n (rev items) of Some v \<Rightarrow> Some v | None \<Rightarrow> ci_get n acc)"
proof (induction items arbitrary: acc)
  case Nil
  then show ?case by simp
next
  case (Cons x items)
  obtain m v where x: "x = (m, v)" by (cases x)
  from Cons.prems x have run: "prepare_headers_loop L items (ci_set m v acc) = Inr h"
    by (auto split: if_splits)
  from Cons.IH [OF run] show ?case
    by (auto simp: x ci_get_append ci_get_ci_set split: option.splits)
qed

lemma prepare_headers_get:
  "prepare_headers L items = Inr h \<Longrightarrow> ci_get n h = ci_get n (rev items)"
  by (auto simp: prepare_headers_def dest: prepare_headers_loop_get [where n = n] split: option.splits)

lemma ci_set_names:
  "set (ci_names (ci_set n v h)) = insert (lower n) (set (ci_names h))"
  by (induction h) (auto split: if_splits)

lemma ci_wf_ci_set: "ci_wf h \<Longrightarrow> ci_wf (ci_set n v h)"
  unfolding ci_wf_def by (induction h) (auto simp: ci_set_names split: if_splits)

lemma prepare_headers_loop_wf:
  "prepare_headers_loop L items acc = Inr h \<Longrightarrow> ci_wf acc \<Longrightarrow> ci_wf h"
  by (induction items arbitrary: acc) (auto simp: ci_wf_ci_set split: if_splits)

lemma prepare_headers_wf: "prepare_headers L items = Inr h \<Longrightarrow> ci_wf h"
  by (auto simp: prepare_headers_def ci_wf_def dest: prepare_headers_loop_wf)

lemma prepare_headers_loop_returns:
  "(\<exists>h. prepare_headers_loop L items acc = Inr h) \<longleftrightarrow> list_all (check_header_validity L) items"
proof (induction items arbitrary: acc)
  case Nil
  show ?case by simp
next
  case (Cons x items)
  then show ?case
    by (cases x; cases "check_header_validity L x") simp_all
qed

lemma ci_get_rev_dict_set_other:
  "lower k \<noteq> lower n \<Longrightarrow> ci_get n (rev (dict_set k v d)) = ci_get n (rev d)"
  by (induction d) (auto simp: ci_get_append split: option.splits)

lemma ci_count_0_get: "ci_count n h = 0 \<Longrightarrow> ci_get n (rev h) = None"
  by (induction h) (auto simp: ci_count_def ci_get_append split: if_splits)

lemma ci_get_rev_dict_set_same:
  "ci_count k d \<le> 1 \<Longrightarrow> ci_get k (rev (dict_set k v d)) = Some v"
proof (induction d)
  case Nil
  then show ?case by simp
next
  case (Cons x d)
  obtain k' v' where x: "x = (k', v')" by (cases x)
  show ?case
  proof (cases "k' = k")
    case True
    with Cons.prems x have "ci_count k d = 0" by (simp add: ci_count_def)
    then show ?thesis using True x by (simp add: ci_get_append ci_count_0_get)
  next
    case False
    from Cons.prems x have "ci_count k d \<le> 1" by (simp add: ci_count_def split: if_splits)
    from Cons.IH [OF this] show ?thesis using False x by (simp add: ci_get_append)
  qed
qed

lemma ci_count_dict_set_other:
  "lower k \<noteq> lower n \<Longrightarrow> ci_count n (dict_set k v d) = ci_count n d"
  by (induction d) (auto simp: ci_count_def)

lemma ci_wf_count: "ci_wf h \<Longrightarrow> ci_count n h \<le> 1"
  by (induction h) (auto simp: ci_wf_def ci_count_def count_list_0_iff)

lemma ci_wf_get_rev: "ci_wf h \<Longrightarrow> ci_get n (rev h) = ci_get n h"
proof (induction h)
  case Nil
  then show ?case by simp
next
  case (Cons x h)
  obtain m v where x: "x = (m, v)" by (cases x)
  from Cons.prems x have wf: "ci_wf h" and fresh: "lower m \<notin> set (ci_names h)"
    by (simp_all add: ci_wf_def)
  show ?case
  proof (cases "lower m = lower n")
    case True
    with fresh have "ci_get n (rev h) = None"
      by (simp add: ci_get_None_iff ci_names_rev)
    then show ?thesis using True x by (simp add: ci_get_append)
  next
    case False
    then show ?thesis using Cons.IH [OF wf] x by (simp add: ci_get_append split: option.splits)
  qed
qed

lemma api_names_differ:
  "lower ''API-KEY'' \<noteq> lower ''API-TIMESTAMP''"
  "lower ''API-KEY'' \<noteq> lower ''API-SIGN''"
  "lower ''API-TIMESTAMP'' \<noteq> lower ''API-SIGN''"
  by code_simp+

lemma signed_items_get:
  assumes wf: "ci_wf h"
  shows "ci_get ''API-KEY'' (rev (signed_items key ts sign h)) = Some key"
    and "ci_get ''API-TIMESTAMP'' (rev (signed_items key ts sign h)) = Some ts"
    and "ci_get ''API-SIGN'' (rev (signed_items key ts sign h)) = Some sign"
    and "lower n \<noteq> lower ''API-KEY'' \<Longrightarrow> lower n \<noteq> lower ''API-TIMESTAMP'' \<Longrightarrow>
         lower n \<noteq> lower ''API-SIGN'' \<Longrightarrow>
         ci_get n (rev (signed_items key ts sign h)) = ci_get n h"
proof -
  note d = api_names_differ api_names_differ [symmetric]
  note c = ci_wf_count [OF wf]
  show "ci_get ''API-KEY'' (rev (signed_items key ts sign h)) = Some key"
    unfolding signed_items_def
    by (simp add: ci_get_rev_dict_set_other ci_get_rev_dict_set_same [OF c] d)
  have c1: "ci_count ''API-TIMESTAMP'' (dict_set ''API-KEY'' key h) \<le> 1"
    using c [of "''API-TIMESTAMP''"] by (simp add: ci_count_dict_set_other d)
  show "ci_get ''API-TIMESTAMP'' (rev (signed_items key ts sign h)) = Some ts"
    unfolding signed_items_def
    by (simp add: ci_get_rev_dict_set_other ci_get_rev_dict_set_same [OF c1] d)
  have c2: "ci_count ''API-SIGN'' (dict_set ''API-TIMESTAMP'' ts (dict_set ''API-KEY'' key h)) \<le> 1"
    using c [of "''API-SIGN''"] by (simp add: ci_count_dict_set_other d)
  show "ci_get ''API-SIGN'' (rev (signed_items key ts sign h)) = Some sign"
    unfolding signed_items_def
    by (simp add: ci_get_rev_dict_set_same [OF c2])
  assume "lower n \<noteq> lower ''API-KEY''" "lower n \<noteq> lower ''API-TIMESTAMP''"
    "lower n \<noteq> lower ''API-SIGN''"
  then show "ci_get n (rev (signed_items key ts sign h)) = ci_get n h"
    unfolding signed_items_def
    by (simp add: ci_get_rev_dict_set_other not_sym ci_wf_get_rev [OF wf])
qed

lemma encode_ascii_Inr: "encode_ascii s = Inr t \<Longrightarrow> t = s"
  by (auto simp: encode_ascii_def split: if_splits)

lemma GMOCoinAuth_call_Inr:
  assumes "GMOCoinAuth_call L a now r = Inr r'"
  shows "\<exists>h. prepare_headers L (signed_items (api_key a) (timestamp_of L now)
            (hexdigest (hmac_sha256 L (secret a) (sign_text L now r))) (p_headers r)) = Inr h
          \<and> r' = r\<lparr>p_headers := h\<rparr>"
  using assms
  by (auto simp: GMOCoinAuth_call_def Let_def signed_items_def
      split: sum.splits dest!: encode_ascii_Inr)

lemma prepare_headers_Inr_iff:
  "(\<exists>h. prepare_headers L items = Inr h) \<longleftrightarrow> list_all (check_header_validity L) items"
  by (simp add: prepare_headers_def prepare_headers_loop_returns)

lemma GMOCoinAuth_call_returns:
  "(\<exists>r'. GMOCoinAuth_call L a now r = Inr r') \<longleftrightarrow>
     list_all is_ascii (secret a) \<and> list_all is_ascii (sign_text L now r) \<and>
     list_all (check_header_validity L)
       (signed_items (api_key a) (timestamp_of L now)
          (hexdigest (hmac_sha256 L (secret a) (sign_text L now r))) (p_headers r))"
  (is "?lhs \<longleftrightarrow> ?a1 \<and> ?a2 \<and> list_all _ ?items")
proof (cases "?a1 \<and> ?a2")
  case False
  then show ?thesis
    by (auto simp: GMOCoinAuth_call_def Let_def encode_ascii_def)
next
  case True
  have "?lhs \<longleftrightarrow> (\<exists>h. prepare_headers L ?items = Inr h)"
    using True
    by (cases "prepare_headers L ?items")
      (simp_all add: GMOCoinAuth_call_def Let_def encode_ascii_def signed_items_def)
  with True show ?thesis
    by (simp add: prepare_headers_Inr_iff)
qed




lemma ci_get_Some_name: "ci_get m h = Some v \<Longrightarrow> lower m \<in> set (ci_names h)"
  using ci_get_None_iff [of m h] by auto

lemma ci_names_lower: "x \<in> set (ci_names h) \<Longrightarrow> \<exists>n. x = lower n"
  by (induction h) auto


section \<open>The signer\<close>



text \<open>
  Claim C7, as stated, fails: signing a request that already carries an \<^verbatim>\<open>API-KEY\<close>
  header replaces the value of that header.
\<close>

theorem signing_overwrites_header_counterexample:
  "ci_get ''API-KEY'' (p_headers (example_prepared [(''API-KEY'', ''old'')])) = Some ''old'' \<and>
   GMOCoinAuth_call example_lib example_auth (3 / 2) (example_prepared [(''API-KEY'', ''old'')]) =
     Inr (example_prepared [(''API-KEY'', ''KEY''), (''API-TIMESTAMP'', ''1500''),
            (''API-SIGN'', ''53453135'')]) \<and>
   ci_get ''API-KEY'' (p_headers (example_prepared [(''API-KEY'', ''KEY''),
       (''API-TIMESTAMP'', ''1500''),
       (''API-SIGN'', ''53453135'')])) = Some ''KEY''"
  by code_simp

text \<open>
  Claim C7, amended. When signing returns, the request carries \<^verbatim>\<open>API-KEY\<close> with the
  API key, \<^verbatim>\<open>API-TIMESTAMP\<close> with the timestamp and \<^verbatim>\<open>API-SIGN\<close> with the
  signature; every header whose name is, up to case, none of these three is present
  afterwards exactly when it was present before, with the same value; and the header
  names afterwards are those before together with the three.
\<close>

theorem signing_sets_three_headers:
  assumes "ci_wf (p_headers r)"
    and "GMOCoinAuth_call L a now r = Inr r'"
  shows "ci_get ''API-KEY'' (p_headers r') = Some (api_key a) \<and>
         ci_get ''API-TIMESTAMP'' (p_headers r') = Some (timestamp_of L now) \<and>
         ci_get ''API-SIGN'' (p_headers r') =
           Some (hexdigest (hmac_sha256 L (secret a) (sign_text L now r))) \<and>
         (\<forall>n. lower n \<noteq> lower ''API-KEY'' \<and> lower n \<noteq> lower ''API-TIMESTAMP'' \<and>
              lower n \<noteq> lower ''API-SIGN'' \<longrightarrow>
              ci_get n (p_headers r') = ci_get n (p_headers r)) \<and>
         set (ci_names (p_headers r')) =
           set (ci_names (p_headers r)) \<union>
             {lower ''API-KEY'', lower ''API-TIMESTAMP'', lower ''API-SIGN''} \<and>
         ci_wf (p_headers r')"
proof -
  from GMOCoinAuth_call_Inr [OF assms(2)] obtain h
    where h: "prepare_headers L (signed_items (api_key a) (timestamp_of L now)
            (hexdigest (hmac_sha256 L (secret a) (sign_text L now r))) (p_headers r)) = Inr h"
      and r': "r' = r\<lparr>p_headers := h\<rparr>" by blast
  note g = prepare_headers_get [OF h] signed_items_get [OF assms(1)]
  have k: "ci_get ''API-KEY'' (p_headers r') = Some (api_key a)"
    by (simp add: r' g)
  have t: "ci_get ''API-TIMESTAMP'' (p_headers r') = Some (timestamp_of L now)"
    by (simp add: r' g)
  have s: "ci_get ''API-SIGN'' (p_headers r') =
           Some (hexdigest (hmac_sha256 L (secret a) (sign_text L now r)))"
    by (simp add: r' g)
  have other: "ci_get n (p_headers r') = ci_get n (p_headers r)"
    if "lower n \<noteq> lower ''API-KEY''" "lower n \<noteq> lower ''API-TIMESTAMP''"
       "lower n \<noteq> lower ''API-SIGN''" for n
    using that by (simp add: r' g)
  have names: "set (ci_names (p_headers r')) =
           set (ci_names (p_headers r)) \<union>
             {lower ''API-KEY'', lower ''API-TIMESTAMP'', lower ''API-SIGN''}" (is "?A = ?B")
  proof (rule set_eqI)
    fix x
    show "x \<in> ?A \<longleftrightarrow> x \<in> ?B"
    proof (cases "\<exists>n. x = lower n")
      case False
      then show ?thesis
        using ci_names_lower [of x "p_headers r'"] ci_names_lower [of x "p_headers r"]
        by auto
    next
      case True
      then obtain n where x: "x = lower n" by blast
      have inA: "x \<in> ?A \<longleftrightarrow> ci_get n (p_headers r') \<noteq> None"
        by (simp add: x ci_get_None_iff)
      have inh: "x \<in> set (ci_names (p_headers r)) \<longleftrightarrow> ci_get n (p_headers r) \<noteq> None"
        by (simp add: x ci_get_None_iff)
      show ?thesis
      proof (cases "lower n = lower ''API-KEY'' \<or> lower n = lower ''API-TIMESTAMP'' \<or>
              lower n = lower ''API-SIGN''")
        case True
        then have "x \<in> ?A"
          using ci_get_Some_name [OF k] ci_get_Some_name [OF t] ci_get_Some_name [OF s]
          by (auto simp: x)
        with True show ?thesis by (auto simp: x)
      next
        case False
        then show ?thesis
          using other [of n] inA [unfolded x] inh [unfolded x] by (auto simp: x)
      qed
    qed
  qed
  have wf: "ci_wf (p_headers r')"
    by (simp add: r' prepare_headers_wf [OF h])
  from k t s other names wf show ?thesis by blast
qed

text \<open>The theorem at a request that carries a \<^verbatim>\<open>Content-Type\<close> header.\<close>

theorem signing_sets_three_headers_witness:
  "ci_wf (p_headers (example_prepared [(''Content-Type'', ''application/json'')])) \<and>
   GMOCoinAuth_call example_lib example_auth (3 / 2)
       (example_prepared [(''Content-Type'', ''application/json'')]) =
     Inr (example_prepared [(''Content-Type'', ''application/json''), (''API-KEY'', ''KEY''),
            (''API-TIMESTAMP'', ''1500''),
            (''API-SIGN'', ''53453135'')]) \<and>
   lower ''Content-Type'' \<noteq> lower ''API-KEY'' \<and>
   lower ''Content-Type'' \<noteq> lower ''API-TIMESTAMP'' \<and>
   lower ''Content-Type'' \<noteq> lower ''API-SIGN'' \<and>
   ci_get ''Content-Type'' (p_headers (example_prepared [(''Content-Type'', ''application/json''),
            (''API-KEY'', ''KEY''), (''API-TIMESTAMP'', ''1500''),
            (''API-SIGN'', ''53453135'')])) =
     ci_get ''Content-Type'' (p_headers (example_prepared [(''Content-Type'', ''application/json'')])) \<and>
   ci_get ''API-KEY'' (p_headers (example_prepared [(''Content-Type'', ''application/json''),
            (''API-KEY'', ''KEY''), (''API-TIMESTAMP'', ''1500''),
            (''API-SIGN'', ''53453135'')])) =
     Some (api_key example_auth)"
proof -
  let ?r = "example_prepared [(''Content-Type'', ''application/json'')]"
  let ?r' = "example_prepared [(''Content-Type'', ''application/json''), (''API-KEY'', ''KEY''),
            (''API-TIMESTAMP'', ''1500''),
            (''API-SIGN'', ''53453135'')]"
  have wf: "ci_wf (p_headers ?r)" by code_simp
  have run: "GMOCoinAuth_call example_lib example_auth (3 / 2) ?r = Inr ?r'" by code_simp
  have d: "lower ''Content-Type'' \<noteq> lower ''API-KEY'' \<and>
      lower ''Content-Type'' \<noteq> lower ''API-TIMESTAMP'' \<and>
      lower ''Content-Type'' \<noteq> lower ''API-SIGN''" by code_simp
  from signing_sets_three_headers [OF wf run] show ?thesis
    using wf run d by blast
qed

section \<open>The canonical path\<close>

text \<open>
  Claim C2, as stated, fails: the path \<^verbatim>\<open>/publicity/v1\<close> has no leading \<^verbatim>\<open>/public\<close>
  or \<^verbatim>\<open>/private\<close> segment, so the claim leaves it unchanged, but the code turns it into
  \<^verbatim>\<open>ity/v1\<close>.
\<close>

theorem canonical_path_not_segment_counterexample:
  "\<not> leading_segment ''/public'' ''/publicity/v1'' \<and>
   \<not> leading_segment ''/private'' ''/publicity/v1'' \<and>
   spec_canonical_path ''/publicity/v1'' = ''/publicity/v1'' \<and>
   canonical_path ''/publicity/v1'' = ''ity/v1''"
  by (simp add: leading_segment_def spec_canonical_path_def canonical_path_def)

text \<open>
  Claim C2, amended. The canonical path is the path without a leading \<^verbatim>\<open>/public\<close> or
  \<^verbatim>\<open>/private\<close>, whatever follows these characters; a path that starts with neither is
  left unchanged. On a path that has a leading \<^verbatim>\<open>/public\<close> or \<^verbatim>\<open>/private\<close> segment
  this strips the segment, so \<^verbatim>\<open>/private/v1/order\<close> becomes \<^verbatim>\<open>/v1/order\<close>, and
  \<^verbatim>\<open>/v1/order\<close> stays as it is.
\<close>

theorem canonical_path_strips_prefix:
  "canonical_path (''/public'' @ rest) = rest \<and>
   canonical_path (''/private'' @ rest) = rest \<and>
   (take 7 p \<noteq> ''/public'' \<and> take 8 p \<noteq> ''/private'' \<longrightarrow> canonical_path p = p) \<and>
   (leading_segment ''/public'' p \<or> leading_segment ''/private'' p \<longrightarrow>
      canonical_path p = spec_canonical_path p) \<and>
   canonical_path ''/private/v1/order'' = ''/v1/order'' \<and>
   canonical_path ''/v1/order'' = ''/v1/order''"
proof -
  have a: "canonical_path (''/public'' @ rest) = rest"
    by (simp add: canonical_path_def)
  have b: "canonical_path (''/private'' @ rest) = rest"
    by (simp add: canonical_path_def)
  have c: "canonical_path p = p" if "take 7 p \<noteq> ''/public'' \<and> take 8 p \<noteq> ''/private''"
    using that by (simp add: canonical_path_def)
  have pub: "take 7 p = ''/public''" if "leading_segment ''/public'' p"
  proof -
    from that have "p = ''/public'' \<or> take 8 p = ''/public/''"
      by (simp add: leading_segment_def eval_nat_numeral)
    then show ?thesis
    proof
      assume "p = ''/public''" then show ?thesis by simp
    next
      assume "take 8 p = ''/public/''"
      then have "take 7 (take 8 p) = ''/public''" by simp
      then show ?thesis by (simp add: min_def)
    qed
  qed
  have priv: "take 8 p = ''/private'' \<and> take 7 p \<noteq> ''/public''" if "leading_segment ''/private'' p"
  proof -
    from that have "p = ''/private'' \<or> take 9 p = ''/private/''"
      by (simp add: leading_segment_def eval_nat_numeral)
    then show ?thesis
    proof
      assume "p = ''/private''" then show ?thesis by simp
    next
      assume h: "take 9 p = ''/private/''"
      then have "take 8 (take 9 p) = ''/private''" "take 7 (take 9 p) = ''/privat''" by simp_all
      then show ?thesis by (simp add: min_def)
    qed
  qed
  have d: "canonical_path p = spec_canonical_path p"
    if "leading_segment ''/public'' p \<or> leading_segment ''/private'' p"
    using that pub priv by (auto simp: canonical_path_def spec_canonical_path_def)
  have e: "canonical_path ''/private/v1/order'' = ''/v1/order''"
    "canonical_path ''/v1/order'' = ''/v1/order''"
    by (simp_all add: canonical_path_def)
  from a b c d e show ?thesis by blast
qed

text \<open>The theorem at \<^verbatim>\<open>/v1/order\<close> and at \<^verbatim>\<open>/private/v1/order\<close>.\<close>

theorem canonical_path_strips_prefix_witness:
  "take 7 ''/v1/order'' \<noteq> ''/public'' \<and> take 8 ''/v1/order'' \<noteq> ''/private'' \<and>
   canonical_path ''/v1/order'' = ''/v1/order'' \<and>
   leading_segment ''/private'' ''/private/v1/order'' \<and>
   canonical_path ''/private/v1/order'' = spec_canonical_path ''/private/v1/order''"
proof -
  have h1: "take 7 ''/v1/order'' \<noteq> ''/public'' \<and> take 8 ''/v1/order'' \<noteq> ''/private''"
    by simp
  have h2: "leading_segment ''/private'' ''/private/v1/order''"
    by (simp add: leading_segment_def)
  from canonical_path_strips_prefix [of _ "''/v1/order''"] h1
  have "canonical_path ''/v1/order'' = ''/v1/order''" by blast
  moreover from canonical_path_strips_prefix [of _ "''/private/v1/order''"] h2
  have "canonical_path ''/private/v1/order'' = spec_canonical_path ''/private/v1/order''" by blast
  ultimately show ?thesis using h1 h2 by blast
qed

section \<open>Stripping\<close>

lemma dict_del_distinct:
  "distinct (map fst p) \<Longrightarrow> (k, v) \<in> set p \<Longrightarrow>
   dict_del k p = Inr (filter (\<lambda>kv. kv \<noteq> (k, v)) p)"
proof (induction p)
  case Nil
  then show ?case by simp
next
  case (Cons x p)
  obtain k' v' where x: "x = (k', v')" by (cases x)
  show ?case
  proof (cases "k' = k")
    case True
    with Cons.prems x have v: "v' = v" and fresh: "k \<notin> fst ` set p"
      by (auto simp: rev_image_eqI)
    from fresh have "filter (\<lambda>kv. kv \<noteq> (k, v)) p = p"
      by (auto simp: filter_id_conv rev_image_eqI)
    with True v x show ?thesis by simp
  next
    case False
    with Cons.prems x have "distinct (map fst p)" "(k, v) \<in> set p" by auto
    from Cons.IH [OF this] False x show ?thesis by simp
  qed
qed

lemma strip_loop_filter:
  "distinct (map fst p) \<Longrightarrow> distinct (map fst items) \<Longrightarrow> set items \<subseteq> set p \<Longrightarrow>
   strip_loop items p = Inr (filter (\<lambda>kv. \<not> (kv \<in> set items \<and> snd kv = PNone)) p)"
proof (induction items arbitrary: p)
  case Nil
  then show ?case by simp
next
  case (Cons x items)
  obtain k v where x: "x = (k, v)" by (cases x)
  from Cons.prems x have di: "distinct (map fst items)" and fresh: "k \<notin> fst ` set items"
    and sub: "set items \<subseteq> set p" and mem: "(k, v) \<in> set p"
    by auto
  show ?case
  proof (cases "v = PNone")
    case False
    from Cons.IH [OF Cons.prems(1) di sub] False x show ?thesis
      by (auto intro!: filter_cong)
  next
    case True
    let ?p' = "filter (\<lambda>kv. kv \<noteq> (k, v)) p"
    have del: "dict_del k p = Inr ?p'"
      by (rule dict_del_distinct [OF Cons.prems(1) mem])
    have d': "distinct (map fst ?p')"
      using Cons.prems(1) by (simp add: distinct_map_filter)
    have sub': "set items \<subseteq> set ?p'"
      using sub fresh by (auto simp: rev_image_eqI)
    from Cons.IH [OF d' di sub'] True x del show ?thesis
      by (auto intro!: filter_cong)
  qed
qed

lemma strip_none_filter:
  "distinct (map fst payload) \<Longrightarrow>
   strip_none payload = Inr (filter (\<lambda>kv. snd kv \<noteq> PNone) payload)"
  unfolding strip_none_def
  by (subst strip_loop_filter) (auto intro!: filter_cong)

section \<open>The dispatch, stage by stage\<close>

lemma new_events_append [simp]:
  "trace w' = trace w @ evs \<Longrightarrow> new_events w w' = evs"
  by (simp add: new_events_def)

lemma new_events_same [simp]: "new_events w w = []"
  by (simp add: new_events_def)

lemma request_strip_fails:
  assumes "strip_none payload = Inl e"
  shows "GMOCoin_request L E method path payload auth (c, w) = (Inl e, c, w)"
  using assms by (simp add: GMOCoin_request_def)

lemma request_prepare_fails:
  assumes "strip_none payload = Inr pl"
    and "prepare_request L (auth_client auth c) (clock w) (built L method path pl auth) = Inl e"
  shows "GMOCoin_request L E method path payload auth (c, w) = (Inl e, auth_client auth c, w)"
  using assms
  by (cases auth; cases "method = ''GET''")
    (simp_all add: GMOCoin_request_def auth_client_def built_def endpoint_for_def Let_def)

lemma request_sent_response:
  assumes "strip_none payload = Inr pl"
    and "prepare_request L (auth_client auth c) (clock w) (built L method path pl auth) = Inr p"
    and "send E p = Inr resp"
  shows "GMOCoin_request L E method path payload auth (c, w) =
     (Inr resp, stamp (send_start E c w + latency E) (auth_client auth c),
      \<lparr>clock = send_start E c w + latency E,
       trace = trace w @ [LogDebug (sending_msg p)] @ wait_events c w
                 @ [Send p (send_start E c w)] @ error_events resp
                 @ [LogDebug (response_msg resp)]\<rparr>)"
  using assms
  by (cases auth; cases "method = ''GET''")
    (simp_all add: GMOCoin_request_def auth_client_def built_def endpoint_for_def Let_def
      log_debug_def log_error_def time_sleep_def session_send_def must_wait_def wait_events_def
      send_start_def stamp_def error_events_def raise_for_status_def)

lemma request_sent_raises:
  assumes "strip_none payload = Inr pl"
    and "prepare_request L (auth_client auth c) (clock w) (built L method path pl auth) = Inr p"
    and "send E p = Inl e" and "e \<noteq> HTTPError"
  shows "GMOCoin_request L E method path payload auth (c, w) =
     (Inl e, auth_client auth c,
      \<lparr>clock = send_start E c w + latency E,
       trace = trace w @ [LogDebug (sending_msg p)] @ wait_events c w
                 @ [Send p (send_start E c w)]\<rparr>)"
  using assms
  by (cases auth; cases "method = ''GET''")
    (simp_all add: GMOCoin_request_def auth_client_def built_def endpoint_for_def Let_def
      log_debug_def log_error_def time_sleep_def session_send_def must_wait_def wait_events_def
      send_start_def stamp_def)

lemma request_sent_http_error:
  assumes "strip_none payload = Inr pl"
    and "prepare_request L (auth_client auth c) (clock w) (built L method path pl auth) = Inr p"
    and "send E p = Inl HTTPError"
  shows "GMOCoin_request L E method path payload auth (c, w) =
     (Inl AttributeError, stamp (send_start E c w + latency E) (auth_client auth c),
      \<lparr>clock = send_start E c w + latency E,
       trace = trace w @ [LogDebug (sending_msg p)] @ wait_events c w
                 @ [Send p (send_start E c w)] @ [LogError HTTPError]\<rparr>)"
  using assms
  by (cases auth; cases "method = ''GET''")
    (simp_all add: GMOCoin_request_def auth_client_def built_def endpoint_for_def Let_def
      log_debug_def log_error_def time_sleep_def session_send_def must_wait_def wait_events_def
      send_start_def stamp_def)

lemma wait_events_no_send: "Send p t \<notin> set (wait_events c w)"
  by (simp add: wait_events_def)

lemma error_events_no_send: "Send p t \<notin> set (error_events resp)"
  by (simp add: error_events_def)

text \<open>A call that sent a request got through stripping and preparing.\<close>

lemma request_sent_cases:
  assumes run: "GMOCoin_request L E method path payload auth (c, w) = (res, c', w')"
    and sent: "Send p t \<in> set (new_events w w')"
  obtains pl where "strip_none payload = Inr pl"
    and "prepare_request L (auth_client auth c) (clock w) (built L method path pl auth) = Inr p"
    and "t = send_start E c w"
proof (cases "strip_none payload")
  case (Inl e)
  from run sent show ?thesis
    by (simp add: request_strip_fails [OF Inl])
next
  case (Inr pl)
  show ?thesis
  proof (cases "prepare_request L (auth_client auth c) (clock w) (built L method path pl auth)")
    case (Inl e)
    from run sent show ?thesis
      by (simp add: request_prepare_fails [OF Inr Inl])
  next
    case prep: (Inr q)
    have "p = q \<and> t = send_start E c w"
    proof (cases "send E q")
      case (Inr resp)
      from run sent show ?thesis
        by (auto simp: request_sent_response [OF \<open>strip_none payload = Inr pl\<close> prep Inr]
            wait_events_def error_events_def split: if_splits)
    next
      case (Inl e)
      show ?thesis
      proof (cases "e = HTTPError")
        case True
        from run sent show ?thesis
          by (auto simp: request_sent_http_error [OF \<open>strip_none payload = Inr pl\<close> prep Inl [unfolded True]]
              wait_events_def split: if_splits)
      next
        case False
        from run sent show ?thesis
          by (auto simp: request_sent_raises [OF \<open>strip_none payload = Inr pl\<close> prep Inl False]
              wait_events_def split: if_splits)
      qed
    qed
    with Inr prep that show ?thesis by blast
  qed
qed

lemma prepare_request_shape:
  assumes "prepare_request L c now req = Inr p"
  shows "p_method p = upper (r_method req) \<and>
         p_url p = prepare_url L (r_url req) (r_params req) \<and>
         p_body p = r_data req"
proof (cases "prepare_headers L (s_headers c)")
  case (Inl e)
  with assms show ?thesis by (simp add: prepare_request_def)
next
  case (Inr h)
  show ?thesis
  proof (cases "s_auth c")
    case None
    with assms Inr show ?thesis by (auto simp: prepare_request_def Let_def)
  next
    case (Some a)
    with assms Inr have "GMOCoinAuth_call L a now
        \<lparr>p_method = upper (r_method req), p_url = prepare_url L (r_url req) (r_params req),
         p_headers = h, p_body = r_data req\<rparr> = Inr p"
      by (simp add: prepare_request_def Let_def)
    from GMOCoinAuth_call_Inr [OF this] show ?thesis by auto
  qed
qed




lemma log_error_wait_events: "LogError e \<notin> set (wait_events c w)"
  by (simp add: wait_events_def)

lemma auth_client_fields [simp]:
  "late_limit (auth_client auth c) = late_limit c"
  "last_req_time (auth_client auth c) = last_req_time c"
  "s_headers (auth_client auth c) = s_headers c"
  "gmo_auth (auth_client auth c) = gmo_auth c"
  "s_auth (auth_client auth c) = (if auth then Some (gmo_auth c) else None)"
  by (simp_all add: auth_client_def)

lemma stamp_fields [simp]:
  "late_limit (stamp t c) = late_limit c"
  "s_headers (stamp t c) = s_headers c"
  "gmo_auth (stamp t c) = gmo_auth c"
  "s_auth (stamp t c) = s_auth c"
  "last_req_time (stamp t c) = (if late_limit c then t else last_req_time c)"
  by (simp_all add: stamp_def)

text \<open>What any call leaves unchanged in the client.\<close>

lemma request_preserves:
  assumes run: "GMOCoin_request L E method path payload auth (c, w) = (res, c', w')"
  shows "late_limit c' = late_limit c \<and> s_headers c' = s_headers c \<and> gmo_auth c' = gmo_auth c"
proof (cases "strip_none payload")
  case (Inl e)
  from run show ?thesis by (simp add: request_strip_fails [OF Inl])
next
  case (Inr pl)
  show ?thesis
  proof (cases "prepare_request L (auth_client auth c) (clock w) (built L method path pl auth)")
    case (Inl e)
    from run show ?thesis by (auto simp: request_prepare_fails [OF Inr Inl])
  next
    case prep: (Inr q)
    show ?thesis
    proof (cases "send E q")
      case (Inr resp)
      from run show ?thesis
        by (auto simp: request_sent_response [OF \<open>strip_none payload = Inr pl\<close> prep Inr])
    next
      case (Inl e)
      show ?thesis
      proof (cases "e = HTTPError")
        case True
        from run show ?thesis
          by (auto simp: request_sent_http_error [OF \<open>strip_none payload = Inr pl\<close> prep Inl [unfolded True]])
      next
        case False
        from run show ?thesis
          by (auto simp: request_sent_raises [OF \<open>strip_none payload = Inr pl\<close> prep Inl False])
      qed
    qed
  qed
qed

text \<open>
  Claim C4. When the send of a call yields a response, the call returns that same
  response (status and body as received), whatever its status; on a 4xx or 5xx status
  the error is logged, and on no other status.
\<close>

theorem http_error_response_is_returned:
  assumes run: "GMOCoin_request L E method path payload auth (c, w) = (res, c', w')"
    and sent: "Send p t \<in> set (new_events w w')"
    and resp: "send E p = Inr resp"
  shows "res = Inr resp \<and>
         (LogError HTTPError \<in> set (new_events w w') \<longleftrightarrow>
            400 \<le> status_code resp \<and> status_code resp < 600)"
proof -
  from request_sent_cases [OF run sent] obtain pl
    where pl: "strip_none payload = Inr pl"
      and prep: "prepare_request L (auth_client auth c) (clock w) (built L method path pl auth) = Inr p"
    by blast
  from run have r: "res = Inr resp"
    and tr: "trace w' = trace w @ [LogDebug (sending_msg p)] @ wait_events c w
                 @ [Send p (send_start E c w)] @ error_events resp
                 @ [LogDebug (response_msg resp)]"
    by (auto simp: request_sent_response [OF pl prep resp])
  have "new_events w w' = [LogDebug (sending_msg p)] @ wait_events c w
                 @ [Send p (send_start E c w)] @ error_events resp
                 @ [LogDebug (response_msg resp)]"
    by (rule new_events_append) (simp add: tr)
  then have "LogError HTTPError \<in> set (new_events w w') \<longleftrightarrow>
            400 \<le> status_code resp \<and> status_code resp < 600"
    by (simp add: wait_events_def error_events_def)
  with r show ?thesis by blast
qed

text \<open>
  Claim C9. When the send raises an exception other than \<^verbatim>\<open>HTTPError\<close>, the call
  raises that exception and the last-send timestamp of the client is what it was before
  the call, so that the next call waits no longer than it would have.
\<close>

theorem transport_exception_propagates:
  assumes run: "GMOCoin_request L E method path payload auth (c, w) = (res, c', w')"
    and sent: "Send p t \<in> set (new_events w w')"
    and raised: "send E p = Inl e"
    and other: "e \<noteq> HTTPError"
  shows "res = Inl e \<and> last_req_time c' = last_req_time c \<and> late_limit c' = late_limit c"
proof -
  from request_sent_cases [OF run sent] obtain pl
    where pl: "strip_none payload = Inr pl"
      and prep: "prepare_request L (auth_client auth c) (clock w) (built L method path pl auth) = Inr p"
    by blast
  from run show ?thesis
    by (auto simp: request_sent_raises [OF pl prep raised other])
qed




lemma sent_request_shape:
  assumes keys: "distinct (map fst payload)"
    and run: "GMOCoin_request L E method path payload auth (c, w) = (res, c', w')"
    and sent: "Send p t \<in> set (new_events w w')"
  shows "p_method p = upper method \<and>
         p_url p = prepare_url L ((if auth then endpoint_private else endpoint_public) @ path)
                     (if method = ''GET'' then Some (filter (\<lambda>kv. snd kv \<noteq> PNone) payload)
                      else None) \<and>
         p_body p = (if method = ''GET'' then None
                     else Some (json_dumps L (PDict (filter (\<lambda>kv. snd kv \<noteq> PNone) payload))))"
proof -
  from request_sent_cases [OF run sent] obtain pl
    where pl: "strip_none payload = Inr pl"
      and prep: "prepare_request L (auth_client auth c) (clock w) (built L method path pl auth) = Inr p"
    by blast
  from pl strip_none_filter [OF keys] have "pl = filter (\<lambda>kv. snd kv \<noteq> PNone) payload"
    by simp
  with prepare_request_shape [OF prep] show ?thesis
    by (simp add: built_def endpoint_for_def)
qed

text \<open>
  Claim C5, amended. The keys of the payload mapping whose value is \<^verbatim>\<open>None\<close> are
  removed before the request is built, the other keys keeping their values and their
  order, so that the query parameters or the JSON document of the request sent hold no
  key of the payload mapping itself with the value \<^verbatim>\<open>None\<close>; values nested inside a
  list or a dict are not looked into. The payload \<^verbatim>\<open>{symbol: "BTC_JPY", page: None}\<close>
  is sent as \<^verbatim>\<open>symbol\<close> alone.
\<close>

theorem top_level_none_keys_are_stripped:
  assumes keys: "distinct (map fst payload)"
  shows "strip_none payload = Inr (filter (\<lambda>kv. snd kv \<noteq> PNone) payload) \<and>
         list_all (\<lambda>kv. snd kv \<noteq> PNone) (filter (\<lambda>kv. snd kv \<noteq> PNone) payload) \<and>
         (\<forall>res c' w' p t.
            GMOCoin_request L E method path payload auth (c, w) = (res, c', w') \<and>
            Send p t \<in> set (new_events w w') \<longrightarrow>
            p_url p = prepare_url L ((if auth then endpoint_private else endpoint_public) @ path)
                        (if method = ''GET'' then Some (filter (\<lambda>kv. snd kv \<noteq> PNone) payload)
                         else None) \<and>
            p_body p = (if method = ''GET'' then None
                        else Some (json_dumps L (PDict (filter (\<lambda>kv. snd kv \<noteq> PNone) payload))))) \<and>
         strip_none [(''symbol'', PStr ''BTC_JPY''), (''page'', PNone)] =
           Inr [(''symbol'', PStr ''BTC_JPY'')]"
proof -
  have a: "strip_none payload = Inr (filter (\<lambda>kv. snd kv \<noteq> PNone) payload)"
    by (rule strip_none_filter [OF keys])
  have b: "list_all (\<lambda>kv. snd kv \<noteq> PNone) (filter (\<lambda>kv. snd kv \<noteq> PNone) payload)"
    by (simp add: list_all_iff)
  have d: "strip_none [(''symbol'', PStr ''BTC_JPY''), (''page'', PNone)] =
           Inr [(''symbol'', PStr ''BTC_JPY'')]"
    by (simp add: strip_none_def)
  from a b d sent_request_shape [OF keys] show ?thesis by blast
qed

text \<open>
  Claim C6, as stated, fails: \<^verbatim>\<open>_request('get', '/v1/trades', ...)\<close> sends a request
  whose HTTP method is \<^verbatim>\<open>GET\<close>, with the payload as a JSON body and without query
  parameters.
\<close>

theorem lower_case_get_sends_body_counterexample:
  "fst lower_get_call = Inr ok_response \<and>
   sent_requests (trace (snd (snd lower_get_call))) = [lower_get_prepared] \<and>
   p_method lower_get_prepared = ''GET'' \<and>
   p_body lower_get_prepared =
     Some (json_dumps example_lib (PDict [(''symbol'', PStr ''BTC_JPY'')])) \<and>
   p_body lower_get_prepared \<noteq> None \<and>
   p_url lower_get_prepared = prepare_url example_lib (endpoint_public @ ''/v1/trades'') None"
  by code_simp

text \<open>
  Claim C6, amended. The request that a call sends has the upper-cased method argument
  as its HTTP method. When the method argument is the string \<^verbatim>\<open>GET\<close> itself, as it
  is in every endpoint method that reads, the request has the URL prepared from the
  endpoint, the path and the stripped payload as query parameters, and no body; for
  every other method argument it has the URL prepared without query parameters and the
  JSON serialisation of the stripped payload as its body.
\<close>

theorem get_uses_query_others_use_json_body:
  assumes keys: "distinct (map fst payload)"
    and run: "GMOCoin_request L E method path payload auth (c, w) = (res, c', w')"
    and sent: "Send p t \<in> set (new_events w w')"
  shows "p_method p = upper method \<and>
         (method = ''GET'' \<longrightarrow>
            p_url p = prepare_url L ((if auth then endpoint_private else endpoint_public) @ path)
                        (Some (filter (\<lambda>kv. snd kv \<noteq> PNone) payload)) \<and>
            p_body p = None) \<and>
         (method \<noteq> ''GET'' \<longrightarrow>
            p_url p = prepare_url L ((if auth then endpoint_private else endpoint_public) @ path) None \<and>
            p_body p = Some (json_dumps L (PDict (filter (\<lambda>kv. snd kv \<noteq> PNone) payload))))"
  using sent_request_shape [OF keys run sent] by simp

text \<open>
  Claim C8. \<^verbatim>\<open>closeorder\<close> dispatches a payload whose \<^verbatim>\<open>settlePosition\<close> field is the
  one-element list holding the dict of \<^verbatim>\<open>positionId\<close> and \<^verbatim>\<open>size\<close>, and the field is
  still that after the stripping of \<^verbatim>\<open>None\<close> values; with position 123 and size
  \<^verbatim>\<open>"0.1"\<close> it is \<^verbatim>\<open>[{positionId: 123, size: "0.1"}]\<close>.
\<close>

theorem closeorder_nests_settle_position:
  "closeorder L E symbol side executionType settlePosition_positionId settlePosition_size price cw =
     GMOCoin_request L E ''POST'' ''/v1/closeOrder''
       (closeorder_payload symbol side executionType settlePosition_positionId
          settlePosition_size price) True cw \<and>
   map_of (closeorder_payload symbol side executionType settlePosition_positionId
             settlePosition_size price) ''settlePosition'' =
     Some (PList [PDict [(''positionId'', settlePosition_positionId),
                         (''size'', settlePosition_size)]]) \<and>
   (\<exists>pl. strip_none (closeorder_payload symbol side executionType settlePosition_positionId
             settlePosition_size price) = Inr pl \<and>
         map_of pl ''settlePosition'' =
           Some (PList [PDict [(''positionId'', settlePosition_positionId),
                               (''size'', settlePosition_size)]])) \<and>
   map_of (closeorder_payload symbol side executionType (PInt 123) (PStr ''0.1'') price)
       ''settlePosition'' =
     Some (PList [PDict [(''positionId'', PInt 123), (''size'', PStr ''0.1'')]])"
proof -
  let ?pl = "closeorder_payload symbol side executionType settlePosition_positionId
          settlePosition_size price"
  have keys: "distinct (map fst ?pl)"
    by (simp add: closeorder_payload_def)
  have kept: "map_of (filter (\<lambda>kv. snd kv \<noteq> PNone) ?pl) ''settlePosition'' =
      Some (PList [PDict [(''positionId'', settlePosition_positionId),
                               (''size'', settlePosition_size)]])"
    by (simp add: closeorder_payload_def)
  show ?thesis
    using strip_none_filter [OF keys] kept
    by (simp add: closeorder_def) (simp add: closeorder_payload_def)
qed

lemma public_prepared_no_api:
  assumes prep: "prepare_request L c now req = Inr p"
    and hook: "s_auth c = None"
    and clean: "no_api_headers (s_headers c)"
  shows "no_api_headers (p_headers p)"
proof (cases "prepare_headers L (s_headers c)")
  case (Inl e)
  with prep show ?thesis by (simp add: prepare_request_def)
next
  case (Inr h)
  with prep hook have p: "p_headers p = h"
    by (auto simp: prepare_request_def Let_def)
  have "ci_get n h = None" if "ci_get n (s_headers c) = None" for n
    using that by (simp add: prepare_headers_get [OF Inr] ci_get_rev_None)
  with clean show ?thesis
    by (simp add: no_api_headers_def p)
qed

lemma public_call_no_api:
  assumes clean: "no_api_headers (s_headers c)"
    and keys: "distinct (map fst payload)"
    and run: "GMOCoin_request L E method path payload False (c, w) = (res, c', w')"
  shows "s_auth c' = None \<and>
         (\<forall>p t. Send p t \<in> set (new_events w w') \<longrightarrow> no_api_headers (p_headers p))"
proof -
  have sends: "no_api_headers (p_headers p)" if "Send p t \<in> set (new_events w w')" for p t
  proof -
    from request_sent_cases [OF run that] obtain pl
      where "prepare_request L (auth_client False c) (clock w) (built L method path pl False) = Inr p"
      by blast
    then show ?thesis
      by (rule public_prepared_no_api) (simp_all add: clean)
  qed
  let ?pl = "filter (\<lambda>kv. snd kv \<noteq> PNone) payload"
  note pl = strip_none_filter [OF keys]
  have hook: "s_auth c' = None"
  proof (cases "prepare_request L (auth_client False c) (clock w) (built L method path ?pl False)")
    case (Inl e)
    from run show ?thesis by (auto simp: request_prepare_fails [OF pl Inl])
  next
    case prep: (Inr q)
    show ?thesis
    proof (cases "send E q")
      case (Inr resp)
      from run show ?thesis
        by (auto simp: request_sent_response [OF pl prep Inr])
    next
      case (Inl e)
      show ?thesis
      proof (cases "e = HTTPError")
        case True
        from run show ?thesis
          by (auto simp: request_sent_http_error [OF pl prep Inl [unfolded True]])
      next
        case False
        from run show ?thesis
          by (auto simp: request_sent_raises [OF pl prep Inl False])
      qed
    qed
  qed
  with sends show ?thesis by blast
qed

lemma init_no_api:
  "no_api_headers (default_headers L) \<Longrightarrow> no_api_headers (s_headers (GMOCoin_init L key sec limit))"
proof -
  have d: "lower ''Content-Type'' \<noteq> lower ''API-KEY''"
    "lower ''Content-Type'' \<noteq> lower ''API-TIMESTAMP''"
    "lower ''Content-Type'' \<noteq> lower ''API-SIGN''"
    by code_simp+
  assume "no_api_headers (default_headers L)"
  then show ?thesis
    by (simp add: no_api_headers_def GMOCoin_init_def ci_get_ci_set d)
qed

text \<open>
  Claim C10. A public call sets the authentication hook of the session to \<^verbatim>\<open>None\<close>
  before it prepares its request, and the request it sends carries none of
  \<^verbatim>\<open>API-KEY\<close>, \<^verbatim>\<open>API-TIMESTAMP\<close> and \<^verbatim>\<open>API-SIGN\<close>, also right after another call,
  authenticated or not, on the same client. The headers of the session itself hold
  none of the three, as is the case after \<^verbatim>\<open>__init__\<close>.
\<close>

theorem public_request_carries_no_api_headers:
  assumes clean: "no_api_headers (s_headers c)"
    and keys: "distinct (map fst pl2)"
    and first: "GMOCoin_request L E1 m1 path1 pl1 a1 (c, w) = (res1, c1, w1)"
    and second: "GMOCoin_request L E2 m2 path2 pl2 False (c1, wB) = (res2, c2, w2)"
  shows "s_auth c2 = None \<and>
         (\<forall>p t. Send p t \<in> set (new_events wB w2) \<longrightarrow>
            ci_get ''API-KEY'' (p_headers p) = None \<and>
            ci_get ''API-TIMESTAMP'' (p_headers p) = None \<and>
            ci_get ''API-SIGN'' (p_headers p) = None)"
proof -
  from request_preserves [OF first] clean have "no_api_headers (s_headers c1)" by simp
  from public_call_no_api [OF this keys second] show ?thesis
    by (simp add: no_api_headers_def)
qed

section \<open>Example calls\<close>

lemma first_public_run:
  "first_public =
     (Inr ok_response, example_client\<lparr>s_auth := None, last_req_time := 6800000001 / 4\<rparr>,
      \<lparr>clock = 6800000001 / 4,
       trace = [LogDebug (sending_msg trades_prepared), Send trades_prepared 1700000000,
                LogDebug (response_msg ok_response)]\<rparr>)"
  by code_simp

lemma second_public_run:
  "GMOCoin_request example_lib (example_env 400) ''GET'' ''/v1/trades''
       (trades_payload (PStr ''BTC_JPY'') PNone PNone) False
       (example_client\<lparr>s_auth := None, last_req_time := 6800000001 / 4\<rparr>,
        \<lparr>clock = 6800000001 / 4,
         trace = [LogDebug (sending_msg trades_prepared), Send trades_prepared 1700000000,
                  LogDebug (response_msg ok_response)]\<rparr>) =
     (Inr bad_response, example_client\<lparr>s_auth := None, last_req_time := 3400000003 / 2\<rparr>,
      \<lparr>clock = 3400000003 / 2,
       trace = [LogDebug (sending_msg trades_prepared), Send trades_prepared 1700000000,
                LogDebug (response_msg ok_response),
                LogDebug (sending_msg trades_prepared), Sleep 1,
                Send trades_prepared (6800000005 / 4), LogError HTTPError,
                LogDebug (response_msg bad_response)]\<rparr>)"
  by code_simp

lemma failed_public_run:
  "failed_public =
     (Inl (TransportError ''connection refused''), example_client\<lparr>s_auth := None\<rparr>,
      \<lparr>clock = 6800000001 / 4,
       trace = [LogDebug (sending_msg trades_prepared), Send trades_prepared 1700000000]\<rparr>)"
  by code_simp

lemma null_size_order_run:
  "null_size_order = (Inr ok_response, private_done_client, private_done_world)"
  by code_simp

lemma public_after_private_run:
  "public_after_private =
     (Inr ok_response, example_client\<lparr>s_auth := None, last_req_time := 3400000003 / 2\<rparr>,
      \<lparr>clock = 3400000003 / 2,
       trace = [LogDebug (sending_msg closeorder_prepared), Send closeorder_prepared 1700000000,
                LogDebug (response_msg ok_response),
                LogDebug (sending_msg trades_prepared), Sleep 1,
                Send trades_prepared (6800000005 / 4),
                LogDebug (response_msg ok_response)]\<rparr>)"
  by code_simp

section \<open>The claims at concrete calls\<close>


lemma example_client_time: "last_req_time example_client = 0"
  by (simp add: example_client_def GMOCoin_init_def)

lemma trades_keys: "distinct (map fst (trades_payload (PStr ''BTC_JPY'') PNone PNone))"
  by (simp add: trades_payload_def)

lemma trades_stripped:
  "filter (\<lambda>kv. snd kv \<noteq> PNone) (trades_payload (PStr ''BTC_JPY'') PNone PNone) =
     [(''symbol'', PStr ''BTC_JPY'')]"
  by (simp add: trades_payload_def)


text \<open>The theorem at a call answered with status 400: the response is returned.\<close>

theorem http_error_response_is_returned_witness:
  "Send trades_prepared (6800000005 / 4)
     \<in> set (new_events (snd (snd first_public)) (snd (snd second_public))) \<and>
   send (example_env 400) trades_prepared = Inr bad_response \<and>
   status_code bad_response = 400 \<and>
   fst second_public = Inr bad_response \<and>
   LogError HTTPError \<in> set (new_events (snd (snd first_public)) (snd (snd second_public)))"
proof -
  let ?w1 = "\<lparr>clock = 6800000001 / 4,
       trace = [LogDebug (sending_msg trades_prepared), Send trades_prepared 1700000000,
                LogDebug (response_msg ok_response)]\<rparr>"
  let ?c2 = "example_client\<lparr>s_auth := None, last_req_time := 3400000003 / 2\<rparr>"
  let ?w2 = "\<lparr>clock = 3400000003 / 2,
       trace = [LogDebug (sending_msg trades_prepared), Send trades_prepared 1700000000,
                LogDebug (response_msg ok_response),
                LogDebug (sending_msg trades_prepared), Sleep 1,
                Send trades_prepared (6800000005 / 4), LogError HTTPError,
                LogDebug (response_msg bad_response)]\<rparr>"
  have second: "second_public = (Inr bad_response, ?c2, ?w2)"
    unfolding second_public_def first_public_run snd_conv by (rule second_public_run)
  have sent: "Send trades_prepared (6800000005 / 4) \<in> set (new_events ?w1 ?w2)"
    by (simp add: new_events_def)
  have resp: "send (example_env 400) trades_prepared = Inr bad_response"
    by (simp add: example_env_def bad_response_def)
  have st: "status_code bad_response = 400" by (simp add: bad_response_def)
  note thm4 = http_error_response_is_returned [OF second_public_run sent resp]
  from thm4 have logged: "LogError HTTPError \<in> set (new_events ?w1 ?w2)"
    by (simp add: st)
  show ?thesis
    unfolding second first_public_run fst_conv snd_conv
    using sent resp st logged by simp
qed

text \<open>The theorem at a call whose send fails with a connection error.\<close>

theorem transport_exception_propagates_witness:
  "Send trades_prepared 1700000000
     \<in> set (new_events example_world (snd (snd failed_public))) \<and>
   send failing_env trades_prepared = Inl (TransportError ''connection refused'') \<and>
   TransportError ''connection refused'' \<noteq> HTTPError \<and>
   fst failed_public = Inl (TransportError ''connection refused'') \<and>
   last_req_time (fst (snd failed_public)) = last_req_time example_client"
proof -
  let ?w = "\<lparr>clock = 6800000001 / 4,
       trace = [LogDebug (sending_msg trades_prepared), Send trades_prepared 1700000000]\<rparr>"
  have sent: "Send trades_prepared 1700000000 \<in> set (new_events example_world ?w)"
    by (simp add: new_events_def example_world_def)
  have raised: "send failing_env trades_prepared = Inl (TransportError ''connection refused'')"
    by (simp add: failing_env_def)
  have other: "TransportError ''connection refused'' \<noteq> HTTPError" by simp
  note thm9 = transport_exception_propagates
      [OF failed_public_run [unfolded failed_public_def] sent raised other]
  show ?thesis
    unfolding failed_public_run fst_conv snd_conv
    using sent raised thm9 by simp
qed

text \<open>
  The theorem at a public call right after an authenticated one, whose request did
  carry the three headers.
\<close>

theorem public_request_carries_no_api_headers_witness:
  "no_api_headers (s_headers example_client) \<and>
   distinct (map fst (trades_payload (PStr ''BTC_JPY'') PNone PNone)) \<and>
   s_auth (fst (snd null_size_order)) = Some example_auth \<and>
   ci_get ''API-KEY'' (p_headers closeorder_prepared) = Some ''KEY'' \<and>
   Send closeorder_prepared 1700000000 \<in> set (new_events example_world (snd (snd null_size_order))) \<and>
   Send trades_prepared (6800000005 / 4)
     \<in> set (new_events (snd (snd null_size_order)) (snd (snd public_after_private))) \<and>
   s_auth (fst (snd public_after_private)) = None \<and>
   ci_get ''API-KEY'' (p_headers trades_prepared) = None \<and>
   ci_get ''API-TIMESTAMP'' (p_headers trades_prepared) = None \<and>
   ci_get ''API-SIGN'' (p_headers trades_prepared) = None"
proof -
  let ?c2 = "example_client\<lparr>s_auth := None, last_req_time := 3400000003 / 2\<rparr>"
  let ?w2 = "\<lparr>clock = 3400000003 / 2,
       trace = [LogDebug (sending_msg closeorder_prepared), Send closeorder_prepared 1700000000,
                LogDebug (response_msg ok_response),
                LogDebug (sending_msg trades_prepared), Sleep 1,
                Send trades_prepared (6800000005 / 4),
                LogDebug (response_msg ok_response)]\<rparr>"
  have clean: "no_api_headers (s_headers example_client)" by code_simp
  have signed: "ci_get ''API-KEY'' (p_headers closeorder_prepared) = Some ''KEY''" by code_simp
  have hook: "s_auth private_done_client = Some example_auth"
    by (simp add: private_done_client_def)
  have sent1: "Send closeorder_prepared 1700000000 \<in> set (new_events example_world private_done_world)"
    by (simp add: new_events_def example_world_def private_done_world_def)
  have sent2: "Send trades_prepared (6800000005 / 4) \<in> set (new_events private_done_world ?w2)"
    by (simp add: new_events_def private_done_world_def)
  note result = public_request_carries_no_api_headers [OF clean trades_keys
      null_size_order_run [unfolded null_size_order_def closeorder_def]
      public_after_private_run [unfolded public_after_private_def]]
  note cleared = result [THEN conjunct1]
  note absent = result [THEN conjunct2, rule_format, OF sent2]
  show ?thesis
    unfolding null_size_order_run public_after_private_run fst_conv snd_conv
    using clean trades_keys signed hook sent1 sent2 cleared absent by simp
qed

text \<open>The theorem at a \<^verbatim>\<open>GET\<close> call and at a \<^verbatim>\<open>POST\<close> call.\<close>

theorem get_uses_query_others_use_json_body_witness:
  "distinct (map fst (trades_payload (PStr ''BTC_JPY'') PNone PNone)) \<and>
   Send trades_prepared 1700000000 \<in> set (new_events example_world (snd (snd first_public))) \<and>
   p_url trades_prepared =
     prepare_url example_lib (endpoint_public @ ''/v1/trades'') (Some [(''symbol'', PStr ''BTC_JPY'')]) \<and>
   p_body trades_prepared = None \<and>
   distinct (map fst null_size_payload) \<and>
   ''POST'' \<noteq> ''GET'' \<and>
   Send closeorder_prepared 1700000000 \<in> set (new_events example_world (snd (snd null_size_order))) \<and>
   p_url closeorder_prepared = prepare_url example_lib (endpoint_private @ ''/v1/closeOrder'') None \<and>
   p_body closeorder_prepared =
     Some (json_dumps example_lib (PDict (filter (\<lambda>kv. snd kv \<noteq> PNone) null_size_payload)))"
proof -
  let ?w1 = "\<lparr>clock = 6800000001 / 4,
       trace = [LogDebug (sending_msg trades_prepared), Send trades_prepared 1700000000,
                LogDebug (response_msg ok_response)]\<rparr>"
  have sent1: "Send trades_prepared 1700000000 \<in> set (new_events example_world ?w1)"
    by (simp add: new_events_def example_world_def)
  have keys2: "distinct (map fst null_size_payload)"
    by (simp add: null_size_payload_def closeorder_payload_def)
  have sent2: "Send closeorder_prepared 1700000000 \<in> set (new_events example_world private_done_world)"
    by (simp add: new_events_def example_world_def private_done_world_def)
  note get = get_uses_query_others_use_json_body
      [OF trades_keys first_public_run [unfolded first_public_def] sent1]
  note post = get_uses_query_others_use_json_body
      [OF keys2 null_size_order_run [unfolded null_size_order_def closeorder_def,
          folded null_size_payload_def] sent2]
  have a: "p_url trades_prepared =
     prepare_url example_lib (endpoint_public @ ''/v1/trades'') (Some [(''symbol'', PStr ''BTC_JPY'')])
     \<and> p_body trades_prepared = None"
    using get by (simp add: trades_stripped)
  have b: "p_url closeorder_prepared = prepare_url example_lib (endpoint_private @ ''/v1/closeOrder'') None \<and>
     p_body closeorder_prepared =
     Some (json_dumps example_lib (PDict (filter (\<lambda>kv. snd kv \<noteq> PNone) null_size_payload)))"
    using post by simp
  show ?thesis
    unfolding first_public_run null_size_order_run fst_conv snd_conv
    using trades_keys sent1 keys2 sent2 a b by simp
qed

text \<open>
  Claim C5, as stated, fails: \<^verbatim>\<open>closeorder\<close> with \<^verbatim>\<open>settlePosition_size = None\<close> sends
  a body in which the key \<^verbatim>\<open>size\<close> has the value \<^verbatim>\<open>null\<close>.
\<close>

theorem nested_none_reaches_body_counterexample:
  "strip_none null_size_payload = Inr null_size_stripped \<and>
   has_none_key (PDict null_size_stripped) \<and>
   fst null_size_order = Inr ok_response \<and>
   sent_requests (trace (snd (snd null_size_order))) = [closeorder_prepared] \<and>
   p_body closeorder_prepared = Some (json_dumps example_lib (PDict null_size_stripped)) \<and>
   json_dumps example_lib (PList [PDict [(''positionId'', PInt 123), (''size'', PNone)]]) =
     ''[{'' @ [CHR 0x22] @ ''positionId'' @ [CHR 0x22] @ '': 123, '' @ [CHR 0x22] @ ''size''
       @ [CHR 0x22] @ '': null}]''"
proof -
  have a: "strip_none null_size_payload = Inr null_size_stripped" by code_simp
  have b: "has_none_key (PDict null_size_stripped)"
    by (simp add: null_size_stripped_def)
  have c: "json_dumps example_lib (PList [PDict [(''positionId'', PInt 123), (''size'', PNone)]]) =
     ''[{'' @ [CHR 0x22] @ ''positionId'' @ [CHR 0x22] @ '': 123, '' @ [CHR 0x22] @ ''size''
       @ [CHR 0x22] @ '': null}]''" by code_simp
  show ?thesis
    unfolding null_size_order_run fst_conv snd_conv
    using a b c by (simp add: private_done_world_def closeorder_prepared_def)
qed

text \<open>The theorem at the payload of \<^verbatim>\<open>trades\<close> with page and count left out.\<close>

theorem top_level_none_keys_are_stripped_witness:
  "distinct (map fst (trades_payload (PStr ''BTC_JPY'') PNone PNone)) \<and>
   strip_none (trades_payload (PStr ''BTC_JPY'') PNone PNone) = Inr [(''symbol'', PStr ''BTC_JPY'')] \<and>
   Send trades_prepared 1700000000 \<in> set (new_events example_world (snd (snd first_public))) \<and>
   p_url trades_prepared =
     prepare_url example_lib (endpoint_public @ ''/v1/trades'') (Some [(''symbol'', PStr ''BTC_JPY'')])"
proof -
  let ?w1 = "\<lparr>clock = 6800000001 / 4,
       trace = [LogDebug (sending_msg trades_prepared), Send trades_prepared 1700000000,
                LogDebug (response_msg ok_response)]\<rparr>"
  have sent: "Send trades_prepared 1700000000 \<in> set (new_events example_world ?w1)"
    by (simp add: new_events_def example_world_def)
  note stripped = top_level_none_keys_are_stripped [OF trades_keys,
      of example_lib "example_env 200" "''GET''" "''/v1/trades''" False example_client example_world]
  have s: "strip_none (trades_payload (PStr ''BTC_JPY'') PNone PNone) =
      Inr [(''symbol'', PStr ''BTC_JPY'')]"
    using stripped [THEN conjunct1] by (simp only: trades_stripped)
  note shape = stripped [THEN conjunct2, THEN conjunct2, THEN conjunct1, rule_format,
      OF conjI [OF first_public_run [unfolded first_public_def] sent]]
  have u: "p_url trades_prepared =
     prepare_url example_lib (endpoint_public @ ''/v1/trades'') (Some [(''symbol'', PStr ''BTC_JPY'')])"
    using shape by (simp add: trades_stripped)
  show ?thesis
    unfolding first_public_run fst_conv snd_conv
    using trades_keys s sent u by simp
qed

end
